theory Spec2Isabelle
  imports Complex_Main "HOL-Library.Sublist"
begin

section \<open>Values of the scripting runtime\<close>

text \<open>
  The library in \<^verbatim>\<open>src/index.ts\<close> stores whatever a spreadsheet cell holds in dynamically
  typed row objects and compares those values with the operators \<^verbatim>\<open>===\<close>, \<^verbatim>\<open><\<close> and
  \<^verbatim>\<open>>\<close> of the language. The values a cell or a criterion can hold are the scalars of the
  runtime: \<^verbatim>\<open>undefined\<close>, \<^verbatim>\<open>null\<close>, booleans, numbers, strings and \<^verbatim>\<open>Date\<close> objects.

  A number is \<^verbatim>\<open>NaN\<close>, an infinity or a finite value; every finite double is a rational,
  and the order and equality of finite doubles are those of the rationals they denote
  (\<^verbatim>\<open>-0\<close> and \<^verbatim>\<open>+0\<close> are one value for every operator used here). A \<^verbatim>\<open>Date\<close> is an object:
  it has an identity (a reference) and a time value, which is \<^verbatim>\<open>NaN\<close> for an invalid date.

  Reading a property that an object does not own gives what the object inherits: a
  method of its class or a member of \<^verbatim>\<open>Object.prototype\<close>. Such a function or prototype
  object is a \<open>Builtin\<close>, named by the path that reaches it (\<^verbatim>\<open>Object.prototype.toString\<close>);
  two of them are the same object when their paths are equal. A \<open>Builtin\<close> is only ever
  the result of such a read: cells and the objects a caller passes hold scalars.
\<close>

datatype jsnum = NaN | NegInf | Fin rat | PosInf

datatype jsval =
    Undefined
  | Null
  | Bool bool
  | Num jsnum
  | Str string
  | Date nat jsnum
  | Builtin string

text \<open>\<^verbatim>\<open>x instanceof Date\<close>\<close>

fun instanceof_Date :: "jsval \<Rightarrow> bool" where
  "instanceof_Date (Date r t) = True"
| "instanceof_Date v = False"

text \<open>\<^verbatim>\<open>d.getTime()\<close>, used only behind an \<^verbatim>\<open>instanceof Date\<close> test.\<close>

fun getTime :: "jsval \<Rightarrow> jsnum" where
  "getTime (Date r t) = t"
| "getTime v = NaN"

text \<open>Strict equality of two numbers: \<^verbatim>\<open>NaN\<close> equals nothing, itself included.\<close>

definition num_eq :: "jsnum \<Rightarrow> jsnum \<Rightarrow> bool" where
  "num_eq a b = (a \<noteq> NaN \<and> b \<noteq> NaN \<and> a = b)"

text \<open>
  \<^verbatim>\<open>x === y\<close>: equal types and equal values; two objects are equal when they are the same
  object.
\<close>

fun strict_eq :: "jsval \<Rightarrow> jsval \<Rightarrow> bool" where
  "strict_eq Undefined Undefined = True"
| "strict_eq Null Null = True"
| "strict_eq (Bool a) (Bool b) = (a = b)"
| "strict_eq (Num a) (Num b) = num_eq a b"
| "strict_eq (Str a) (Str b) = (a = b)"
| "strict_eq (Date r s) (Date r' s') = (r = r')"
| "strict_eq (Builtin p) (Builtin p') = (p = p')"
| "strict_eq x y = False"

text \<open>
  The comparison a \<^verbatim>\<open>Set\<close> uses for its members (SameValueZero): as \<^verbatim>\<open>===\<close>, but
  \<^verbatim>\<open>NaN\<close> is the same value as \<^verbatim>\<open>NaN\<close>.
\<close>

fun same_value_zero :: "jsval \<Rightarrow> jsval \<Rightarrow> bool" where
  "same_value_zero (Date r s) (Date r' s') = (r = r')"
| "same_value_zero x y = (x = y)"

text \<open>Order of two numbers: every comparison with \<^verbatim>\<open>NaN\<close> is false.\<close>

fun num_lt :: "jsnum \<Rightarrow> jsnum \<Rightarrow> bool" where
  "num_lt NaN b = False"
| "num_lt a NaN = False"
| "num_lt NegInf NegInf = False"
| "num_lt NegInf b = True"
| "num_lt (Fin a) (Fin b) = (a < b)"
| "num_lt (Fin a) PosInf = True"
| "num_lt (Fin a) NegInf = False"
| "num_lt PosInf b = False"

text \<open>
  Order of two strings: lexicographic on the code units. A string is the list of its code
  units, for which the characters of a HOL string stand.
\<close>

fun str_lt :: "string \<Rightarrow> string \<Rightarrow> bool" where
  "str_lt [] [] = False"
| "str_lt [] (y # ys) = True"
| "str_lt (x # xs) [] = False"
| "str_lt (x # xs) (y # ys) =
     (if (of_char x :: nat) < of_char y then True
      else if x = y then str_lt xs ys
      else False)"

text \<open>
  Conversion to a number, as the relational operators apply it to an operand that is not
  compared as a string: \<^verbatim>\<open>undefined\<close> is \<^verbatim>\<open>NaN\<close>, \<^verbatim>\<open>null\<close> is 0, a boolean is 0 or 1,
  a \<^verbatim>\<open>Date\<close> is its time value, and the empty string is 0. The numeric reading of a
  non-empty string (\<^verbatim>\<open>StringToNumber\<close> of the runtime, with its rounding to a double) is
  the parameter \<open>sn\<close>: what is proved holds for every such reading. A function or a
  prototype object converts to its source text, which is no number: it is \<^verbatim>\<open>NaN\<close>. (That
  text depends on the engine and on the build of the script and is not part of these
  values, so a \<open>Builtin\<close> is compared as a number also against a string.)
\<close>

fun ToNumber :: "(string \<Rightarrow> jsnum) \<Rightarrow> jsval \<Rightarrow> jsnum" where
  "ToNumber sn Undefined = NaN"
| "ToNumber sn Null = Fin 0"
| "ToNumber sn (Bool b) = (if b then Fin 1 else Fin 0)"
| "ToNumber sn (Num n) = n"
| "ToNumber sn (Str s) = (if s = [] then Fin 0 else sn s)"
| "ToNumber sn (Date r t) = t"
| "ToNumber sn (Builtin p) = NaN"

text \<open>
  \<^verbatim>\<open>x < y\<close>: two strings are compared as strings, every other pair as numbers.
  \<^verbatim>\<open>x > y\<close> is \<^verbatim>\<open>y < x\<close>.
\<close>

fun js_lt :: "(string \<Rightarrow> jsnum) \<Rightarrow> jsval \<Rightarrow> jsval \<Rightarrow> bool" where
  "js_lt sn (Str a) (Str b) = str_lt a b"
| "js_lt sn x y = num_lt (ToNumber sn x) (ToNumber sn y)"

definition js_gt :: "(string \<Rightarrow> jsnum) \<Rightarrow> jsval \<Rightarrow> jsval \<Rightarrow> bool" where
  "js_gt sn x y = js_lt sn y x"

text \<open>\<^verbatim>\<open>a ?? b\<close>\<close>

definition nullish_coalesce :: "jsval \<Rightarrow> jsval \<Rightarrow> jsval" where
  "nullish_coalesce a b = (if a = Undefined \<or> a = Null then b else a)"

text \<open>\<^verbatim>\<open>row[i]\<close> on an array: \<^verbatim>\<open>undefined\<close> out of range.\<close>

definition array_get :: "jsval list \<Rightarrow> nat \<Rightarrow> jsval" where
  "array_get xs i = (if i < length xs then xs ! i else Undefined)"

section \<open>Objects and what they inherit\<close>

text \<open>
  The string-named members of \<^verbatim>\<open>Object.prototype\<close>, of \<^verbatim>\<open>ActiveTableRow.prototype\<close> (the
  constructor and the five methods of the class in \<^verbatim>\<open>src/index.ts\<close>) and of
  \<^verbatim>\<open>Date.prototype\<close>.
\<close>

definition Object_prototype_names :: "string list" where
  "Object_prototype_names =
     [''constructor'', ''hasOwnProperty'', ''isPrototypeOf'', ''propertyIsEnumerable'',
      ''toLocaleString'', ''toString'', ''valueOf'', ''__defineGetter__'',
      ''__defineSetter__'', ''__lookupGetter__'', ''__lookupSetter__'']"

definition Row_prototype_names :: "string list" where
  "Row_prototype_names =
     [''constructor'', ''isPersisted'', ''save'', ''delete'', ''update'', ''cellOf'']"

definition Date_prototype_names :: "string list" where
  "Date_prototype_names =
     [''constructor'', ''toString'', ''toDateString'', ''toTimeString'', ''toISOString'',
      ''toUTCString'', ''toGMTString'', ''toJSON'', ''toLocaleString'',
      ''toLocaleDateString'', ''toLocaleTimeString'', ''valueOf'',
      ''getDate'', ''getDay'', ''getFullYear'', ''getHours'', ''getMilliseconds'',
      ''getMinutes'', ''getMonth'', ''getSeconds'', ''getTime'', ''getTimezoneOffset'',
      ''getUTCDate'', ''getUTCDay'', ''getUTCFullYear'', ''getUTCHours'',
      ''getUTCMilliseconds'', ''getUTCMinutes'', ''getUTCMonth'', ''getUTCSeconds'',
      ''getYear'',
      ''setDate'', ''setFullYear'', ''setHours'', ''setMilliseconds'', ''setMinutes'',
      ''setMonth'', ''setSeconds'', ''setTime'', ''setUTCDate'', ''setUTCFullYear'',
      ''setUTCHours'', ''setUTCMilliseconds'', ''setUTCMinutes'', ''setUTCMonth'',
      ''setUTCSeconds'', ''setYear'']"

text \<open>
  What an object whose prototype is \<open>p\<close> finds in \<^verbatim>\<open>Object.prototype\<close>, the end of every
  prototype chain: \<^verbatim>\<open>__proto__\<close> is an accessor whose getter returns the prototype of the
  object that is read.
\<close>

definition Object_prototype_get :: "jsval \<Rightarrow> string \<Rightarrow> jsval" where
  "Object_prototype_get p k =
     (if k = ''__proto__'' then p
      else if k \<in> set Object_prototype_names then Builtin (''Object.prototype.'' @ k)
      else Undefined)"

text \<open>
  What an object inherits from its prototype \<open>p\<close>: a row inherits from the prototype of
  its class, an object whose prototype was set to a \<^verbatim>\<open>Date\<close> inherits from that date,
  which has no property of its own, and an object without prototype (\<^verbatim>\<open>null\<close>) inherits
  nothing. \<^verbatim>\<open>toGMTString\<close> is the function \<^verbatim>\<open>toUTCString\<close>. Of any other object only
  the members of \<^verbatim>\<open>Object.prototype\<close> are known here.
\<close>

fun inherited :: "jsval \<Rightarrow> string \<Rightarrow> jsval" where
  "inherited (Builtin p) k =
     (if p = ''ActiveTableRow.prototype'' \<and> k \<in> set Row_prototype_names
      then Builtin (''ActiveTableRow.prototype.'' @ k)
      else Object_prototype_get (Builtin p) k)"
| "inherited (Date r t) k =
     (if k \<in> set Date_prototype_names
      then Builtin (''Date.prototype.'' @ (if k = ''toGMTString'' then ''toUTCString'' else k))
      else Object_prototype_get (Date r t) k)"
| "inherited v k = Undefined"

text \<open>
  A plain object (a criteria object, the argument of \<^verbatim>\<open>create\<close> and \<^verbatim>\<open>update\<close>) is the
  list of its own properties in insertion order, which is what \<^verbatim>\<open>Object.entries\<close> returns;
  its prototype is \<^verbatim>\<open>Object.prototype\<close>. Reading a property gives the property it owns,
  or else what it inherits.
\<close>

type_synonym obj = "(string \<times> jsval) list"

definition obj_get :: "obj \<Rightarrow> string \<Rightarrow> jsval" where
  "obj_get ob k =
     (case map_of ob k of
        None \<Rightarrow> Object_prototype_get (Builtin ''Object.prototype'') k
      | Some v \<Rightarrow> v)"

text \<open>
  The fields of a row, as a list of properties: an assignment overwrites the property in
  place or adds it at the end. An assignment to \<^verbatim>\<open>__proto__\<close> changes no field: it reaches
  the accessor of \<^verbatim>\<open>Object.prototype\<close> (see \<open>row_assign\<close> below).
\<close>

fun obj_put :: "string \<Rightarrow> jsval \<Rightarrow> obj \<Rightarrow> obj" where
  "obj_put k v [] = [(k, v)]"
| "obj_put k v ((k', v') # ps) =
     (if k = k' then (k, v) # ps else (k', v') # obj_put k v ps)"

definition obj_set :: "string \<Rightarrow> jsval \<Rightarrow> obj \<Rightarrow> obj" where
  "obj_set k v ps = (if k = ''__proto__'' then ps else obj_put k v ps)"

section \<open>The sheet\<close>

text \<open>
  The sheet is the collaborator behind the library (\<^verbatim>\<open>GoogleAppsScript.Spreadsheet.Sheet\<close>).
  Its state is the grid that \<^verbatim>\<open>getDataRange().getValues()\<close> returns, the header row first,
  together with the mutating calls it has received, oldest first.
\<close>

datatype sheet_call =
    AppendRow "jsval list"
  | DeleteRow nat
  | SetValues nat nat nat nat "jsval list list"

record sheet =
  sheetName :: string
  cells :: "jsval list list"
  calls :: "sheet_call list"

text \<open>
  Modelled from the spec: the effect of the sheet's own methods on the grid, which is not
  code of this library (the contract of the backing store: rows are addressed from 1, the
  header included; \<^verbatim>\<open>appendRow\<close> adds a row after the last one; \<^verbatim>\<open>deleteRow\<close> removes a
  row and shifts the rows after it up by one; writing a one-row range overwrites that
  row). A position outside the grid leaves the grid as it is; the call is recorded all
  the same.
\<close>

definition sheet_appendRow :: "jsval list \<Rightarrow> sheet \<Rightarrow> sheet" where
  "sheet_appendRow vs s = s\<lparr>cells := cells s @ [vs], calls := calls s @ [AppendRow vs]\<rparr>"

definition delete_at :: "nat \<Rightarrow> 'a list \<Rightarrow> 'a list" where
  "delete_at p xs = (if 1 \<le> p \<and> p \<le> length xs then take (p - 1) xs @ drop p xs else xs)"

definition sheet_deleteRow :: "nat \<Rightarrow> sheet \<Rightarrow> sheet" where
  "sheet_deleteRow p s = s\<lparr>cells := delete_at p (cells s), calls := calls s @ [DeleteRow p]\<rparr>"

definition sheet_setValues :: "nat \<Rightarrow> nat \<Rightarrow> jsval list \<Rightarrow> sheet \<Rightarrow> sheet" where
  "sheet_setValues p n vs s =
     s\<lparr>cells := (if 1 \<le> p \<and> p \<le> length (cells s) then (cells s)[p - 1 := vs] else cells s),
       calls := calls s @ [SetValues p 1 1 n [vs]]\<rparr>"

section \<open>Tables, rows and the object store\<close>

text \<open>
  \<^verbatim>\<open>ActiveTable\<close> keeps the column descriptors it computed when it was built; they never
  change afterwards. An \<^verbatim>\<open>ActiveTableRow\<close> is a mutable object: its fields (\<open>props\<close>, the
  properties it owns), the private \<^verbatim>\<open>#rowNumber\<close> (\<open>None\<close> for \<^verbatim>\<open>null\<close>), the private
  \<^verbatim>\<open>#table\<close> (the four operations of the table that made it, bound to that table), and its
  prototype \<open>proto\<close>, which an assignment to \<^verbatim>\<open>__proto__\<close> can replace. Only an object
  without prototype can own a property named \<^verbatim>\<open>__proto__\<close>; it is kept in \<open>own_proto\<close>.

  Row objects and arrays of rows live in stores addressed by references, so that a
  collection is a list of references, two members of a collection can be the same object,
  and a method can change its receiver in place or return a new array.
\<close>

record ActiveTable =
  attributes :: "(nat \<times> string) list"

record ActiveTableRow =
  props :: obj
  rowNumber :: "nat option"
  table :: ActiveTable
  proto :: jsval
  own_proto :: "jsval option"

record world =
  sheet :: sheet
  heap :: "nat \<Rightarrow> ActiveTableRow"
  nextRef :: nat
  arrays :: "nat \<Rightarrow> nat list"
  nextArr :: nat

text \<open>\<^verbatim>\<open>new ActiveTableRow(rowNumber, TableOperable)\<close>: a row without fields.\<close>

definition Row_constructor :: "nat option \<Rightarrow> ActiveTable \<Rightarrow> ActiveTableRow" where
  "Row_constructor n t =
     \<lparr>props = [], rowNumber = n, table = t,
      proto = Builtin ''ActiveTableRow.prototype'', own_proto = None\<rparr>"

text \<open>\<^verbatim>\<open>row[key]\<close> on a row object: the field, or else what the row inherits.\<close>

definition row_get :: "ActiveTableRow \<Rightarrow> string \<Rightarrow> jsval" where
  "row_get row k =
     (case (if k = ''__proto__'' then own_proto row else map_of (props row) k) of
        None \<Rightarrow> inherited (proto row) k
      | Some v \<Rightarrow> v)"

text \<open>
  \<^verbatim>\<open>row[key] = value\<close>. For \<^verbatim>\<open>__proto__\<close> the assignment reaches the inherited setter,
  which replaces the prototype when the value is an object or \<^verbatim>\<open>null\<close> and does nothing
  otherwise; a row without prototype inherits no setter and gets the property.
\<close>

fun is_object_or_null :: "jsval \<Rightarrow> bool" where
  "is_object_or_null Null = True"
| "is_object_or_null (Date r t) = True"
| "is_object_or_null (Builtin p) = True"
| "is_object_or_null v = False"

definition row_assign :: "string \<Rightarrow> jsval \<Rightarrow> ActiveTableRow \<Rightarrow> ActiveTableRow" where
  "row_assign k v row =
     (if k = ''__proto__'' then
        (if proto row = Null \<or> own_proto row \<noteq> None then row\<lparr>own_proto := Some v\<rparr>
         else if is_object_or_null v then row\<lparr>proto := v\<rparr>
         else row)
      else row\<lparr>props := obj_set k v (props row)\<rparr>)"

text \<open>
  \<^verbatim>\<open>new ActiveTableRowArray(...items)\<close>: a new array, at a new reference, holding the
  items.
\<close>

definition RowArray_constructor :: "world \<Rightarrow> nat list \<Rightarrow> nat \<times> world" where
  "RowArray_constructor w items =
     (let a = nextArr w in (a, w\<lparr>arrays := (arrays w)(a := items), nextArr := Suc a\<rparr>))"

subsection \<open>ActiveTableRowArray: the queries\<close>

text \<open>
  \<^verbatim>\<open>where\<close>, \<^verbatim>\<open>after\<close> and \<^verbatim>\<open>before\<close> read the rows of the receiver, select rows with
  \<^verbatim>\<open>filter\<close> and return the selection in a new array. \<open>RowArray_where\<close>, \<open>RowArray_after\<close>
  and \<open>RowArray_before\<close> are the selections, for the members \<open>this\<close> of the receiver read
  in the store \<open>h\<close>; \<open>ActiveTableRowArray_where\<close>, \<open>ActiveTableRowArray_after\<close> and
  \<open>ActiveTableRowArray_before\<close> are the methods, on the reference \<open>a\<close> of the receiver:
  \<^verbatim>\<open>filter\<close> makes one new array and \<^verbatim>\<open>new ActiveTableRowArray(...filteredRows)\<close> another.
\<close>

definition where_match :: "jsval \<Rightarrow> jsval \<Rightarrow> bool" where
  "where_match value rowValue =
     (if instanceof_Date value \<and> instanceof_Date rowValue
      then num_eq (getTime value) (getTime rowValue)
      else strict_eq rowValue value)"

definition RowArray_where :: "(nat \<Rightarrow> ActiveTableRow) \<Rightarrow> nat list \<Rightarrow> obj \<Rightarrow> nat list" where
  "RowArray_where h this ob =
     filter (\<lambda>r. list_all (\<lambda>(key, value). where_match value (row_get (h r) key)) ob) this"

definition RowArray_after ::
  "(string \<Rightarrow> jsnum) \<Rightarrow> (nat \<Rightarrow> ActiveTableRow) \<Rightarrow> nat list \<Rightarrow> obj \<Rightarrow> nat list" where
  "RowArray_after sn h this ob =
     filter (\<lambda>r. list_all (\<lambda>(key, value). js_gt sn (row_get (h r) key) value) ob) this"

definition RowArray_before ::
  "(string \<Rightarrow> jsnum) \<Rightarrow> (nat \<Rightarrow> ActiveTableRow) \<Rightarrow> nat list \<Rightarrow> obj \<Rightarrow> nat list" where
  "RowArray_before sn h this ob =
     filter (\<lambda>r. list_all (\<lambda>(key, value).
        let rowValue = row_get (h r) key
        in rowValue \<noteq> Null \<and> rowValue \<noteq> Str [] \<and> js_lt sn rowValue value) ob) this"

definition ActiveTableRowArray_where :: "world \<Rightarrow> nat \<Rightarrow> obj \<Rightarrow> nat \<times> world" where
  "ActiveTableRowArray_where w a ob =
     (let (filteredRows, w1) = RowArray_constructor w (RowArray_where (heap w) (arrays w a) ob)
      in RowArray_constructor w1 (arrays w1 filteredRows))"

definition ActiveTableRowArray_after ::
  "(string \<Rightarrow> jsnum) \<Rightarrow> world \<Rightarrow> nat \<Rightarrow> obj \<Rightarrow> nat \<times> world" where
  "ActiveTableRowArray_after sn w a ob =
     (let (filteredRows, w1) = RowArray_constructor w (RowArray_after sn (heap w) (arrays w a) ob)
      in RowArray_constructor w1 (arrays w1 filteredRows))"

definition ActiveTableRowArray_before ::
  "(string \<Rightarrow> jsnum) \<Rightarrow> world \<Rightarrow> nat \<Rightarrow> obj \<Rightarrow> nat \<times> world" where
  "ActiveTableRowArray_before sn w a ob =
     (let (filteredRows, w1) = RowArray_constructor w (RowArray_before sn (heap w) (arrays w a) ob)
      in RowArray_constructor w1 (arrays w1 filteredRows))"

subsection \<open>ActiveTable: the operations handed to the rows\<close>

text \<open>
  \<^verbatim>\<open>create\<close>, \<^verbatim>\<open>#deleteRow\<close> and \<^verbatim>\<open>#updateRow\<close>. \<^verbatim>\<open>create(obj)\<close> only reads properties
  of its argument, so the argument is given as the function that reads them:
  \<open>obj_get fields\<close> for a plain object of the caller, \<open>row_get row\<close> for a row, which is
  what \<^verbatim>\<open>create\<close> gets when a row calls it as its \<^verbatim>\<open>addRow\<close>.
\<close>

definition Table_create :: "ActiveTable \<Rightarrow> (string \<Rightarrow> jsval) \<Rightarrow> world \<Rightarrow> world" where
  "Table_create this ob w =
     (let values = map (\<lambda>(column, name). nullish_coalesce (ob name) (Str []))
                       (attributes this)
      in w\<lparr>sheet := sheet_appendRow values (sheet w)\<rparr>)"

definition Table_deleteRow :: "ActiveTable \<Rightarrow> nat \<Rightarrow> world \<Rightarrow> world" where
  "Table_deleteRow this n w = w\<lparr>sheet := sheet_deleteRow n (sheet w)\<rparr>"

definition Table_updateRow :: "ActiveTable \<Rightarrow> nat \<Rightarrow> ActiveTableRow \<Rightarrow> world \<Rightarrow> world" where
  "Table_updateRow this index row w =
     (let values = map (\<lambda>(column, name). nullish_coalesce (row_get row name) (Str []))
                       (attributes this)
      in w\<lparr>sheet := sheet_setValues index (length (attributes this)) values (sheet w)\<rparr>)"

subsection \<open>ActiveTableRow\<close>

text \<open>The bodies of the methods of a row, for the row at the reference \<open>r\<close>.\<close>

definition Row_isPersisted :: "world \<Rightarrow> nat \<Rightarrow> bool" where
  "Row_isPersisted w r = (rowNumber (heap w r) \<noteq> None)"

definition Row_save :: "world \<Rightarrow> nat \<Rightarrow> world" where
  "Row_save w r =
     (let this = heap w r
      in case rowNumber this of
           None \<Rightarrow> Table_create (table this) (row_get this) w
         | Some n \<Rightarrow> Table_updateRow (table this) n this w)"

definition Row_delete :: "world \<Rightarrow> nat \<Rightarrow> world" where
  "Row_delete w r =
     (let this = heap w r;
          w1 = (case rowNumber this of
                  Some n \<Rightarrow> Table_deleteRow (table this) n w
                | None \<Rightarrow> w)
      in w1\<lparr>heap := (heap w1)(r := (heap w1 r)\<lparr>rowNumber := None\<rparr>)\<rparr>)"

definition Row_update :: "world \<Rightarrow> nat \<Rightarrow> obj \<Rightarrow> world" where
  "Row_update w r ob =
     (let w1 = w\<lparr>heap := (heap w)(r := foldl (\<lambda>row (key, value). row_assign key value row)
                                              (heap w r) ob)\<rparr>;
          this = heap w1 r
      in case rowNumber this of
           Some n \<Rightarrow> Table_updateRow (table this) n this w1
         | None \<Rightarrow> w1)"

subsection \<open>Errors\<close>

datatype error =
    SheetNotFound string
  | DuplicateKeyError string
  | AmbiguousKeyError jsval
  | NotFoundError jsval
  | TypeError

text \<open>
  The errors are the \<^verbatim>\<open>Error\<close> objects the code throws, told apart by their message:
  \<open>SheetNotFound n\<close> is \<^verbatim>\<open>Sheet with name "n" not found\<close>, \<open>DuplicateKeyError n\<close> is
  \<^verbatim>\<open>Duplicate values found in the first column of sheet "n"\<close>, \<open>AmbiguousKeyError i\<close> is
  \<^verbatim>\<open>Multiple rows with id "i" found\<close>, \<open>NotFoundError i\<close> is \<^verbatim>\<open>Row with id "i" not found\<close>,
  and \<open>TypeError\<close> is the error of the runtime for a property read on \<^verbatim>\<open>undefined\<close> and
  for a call of a value that is not a function.
\<close>

subsection \<open>ActiveTableRowArray: deleteAll\<close>

text \<open>
  \<^verbatim>\<open>this.reverse().forEach(row => row.delete())\<close>. \<^verbatim>\<open>reverse\<close> reverses the receiver in
  place and returns it. \<^verbatim>\<open>row.delete()\<close> reads the property \<^verbatim>\<open>delete\<close> of the row and
  calls it: when the row has a field of that name, or no longer inherits from its class,
  what is read is not the method and cannot be called, and the \<^verbatim>\<open>TypeError\<close> ends the
  loop. The result is the error, if any, and the world as the call leaves it.
\<close>

fun forEach_delete :: "world \<Rightarrow> nat list \<Rightarrow> error option \<times> world" where
  "forEach_delete w [] = (None, w)"
| "forEach_delete w (row # rows) =
     (if row_get (heap w row) ''delete'' = Builtin ''ActiveTableRow.prototype.delete''
      then forEach_delete (Row_delete w row) rows
      else (Some TypeError, w))"

definition RowArray_deleteAll :: "world \<Rightarrow> nat \<Rightarrow> error option \<times> world" where
  "RowArray_deleteAll w a =
     (let w1 = w\<lparr>arrays := (arrays w)(a := rev (arrays w a))\<rparr>
      in forEach_delete w1 (arrays w1 a))"

subsection \<open>ActiveTable: construction and reads\<close>

text \<open>
  \<^verbatim>\<open>new Set(values).size\<close>: the members are added in order, and a value is added only if
  no member is the same value already.
\<close>

definition Set_add :: "jsval list \<Rightarrow> jsval \<Rightarrow> jsval list" where
  "Set_add s v = (if list_ex (\<lambda>x. same_value_zero x v) s then s else s @ [v])"

definition Set_size :: "jsval list \<Rightarrow> nat" where
  "Set_size values = length (foldl Set_add [] values)"

text \<open>
  The name of a column is the header cell used as a property key. A string is its own
  key; the key of any other value is its conversion to a string, the parameter \<open>ts\<close>.
\<close>

definition ToPropertyKey :: "(jsval \<Rightarrow> string) \<Rightarrow> jsval \<Rightarrow> string" where
  "ToPropertyKey ts v = (case v of Str s \<Rightarrow> s | _ \<Rightarrow> ts v)"

text \<open>
  The private constructor. \<^verbatim>\<open>rows.shift()\<close> on an empty grid is \<^verbatim>\<open>undefined\<close>, and
  \<^verbatim>\<open>headers.map\<close> then raises.
\<close>

definition Table_constructor :: "(jsval \<Rightarrow> string) \<Rightarrow> world \<Rightarrow> bool \<Rightarrow> error + ActiveTable" where
  "Table_constructor ts w checkUnique =
     (case cells (sheet w) of
        [] \<Rightarrow> Inl TypeError
      | headers # rows \<Rightarrow>
          let attrs = map (\<lambda>(index, name). (index + 1, ToPropertyKey ts name))
                          (enumerate 0 headers)
          in if checkUnique \<and> Set_size (map (\<lambda>row. array_get row 0) rows) \<noteq> length rows
             then Inl (DuplicateKeyError (sheetName (sheet w)))
             else Inr \<lparr>attributes = attrs\<rparr>)"

text \<open>
  \<^verbatim>\<open>bySheetName(sheetName, checkUnique = true)\<close>: an argument that is left out (\<open>None\<close>)
  is \<^verbatim>\<open>true\<close>. The active spreadsheet holds the one sheet of the world, so that
  \<^verbatim>\<open>getSheetByName\<close> finds a sheet for that name only.
\<close>

definition bySheetName ::
  "(jsval \<Rightarrow> string) \<Rightarrow> world \<Rightarrow> string \<Rightarrow> bool option \<Rightarrow> error + ActiveTable" where
  "bySheetName ts w name checkUnique =
     (if name \<noteq> sheetName (sheet w) then Inl (SheetNotFound name)
      else Table_constructor ts w (case checkUnique of None \<Rightarrow> True | Some b \<Rightarrow> b))"

text \<open>
  \<^verbatim>\<open>#rows\<close>: one new row object for each row of the grid after the first, numbered from 2,
  with one assignment for each column descriptor in turn, and a new array that holds
  them.
\<close>

definition lazyRow :: "ActiveTable \<Rightarrow> nat \<Rightarrow> jsval list \<Rightarrow> ActiveTableRow" where
  "lazyRow this index row =
     foldl (\<lambda>lazy (column, name). row_assign name (array_get row (column - 1)) lazy)
           (Row_constructor (Some (index + 2)) this)
           (attributes this)"

fun alloc_rows :: "ActiveTable \<Rightarrow> nat \<Rightarrow> jsval list list \<Rightarrow> world \<Rightarrow> nat list \<times> world" where
  "alloc_rows this index [] w = ([], w)"
| "alloc_rows this index (row # rows) w =
     (let r = nextRef w;
          w1 = w\<lparr>heap := (heap w)(r := lazyRow this index row), nextRef := r + 1\<rparr>;
          (rs, w2) = alloc_rows this (index + 1) rows w1
      in (r # rs, w2))"

definition Table_rows :: "ActiveTable \<Rightarrow> world \<Rightarrow> nat \<times> world" where
  "Table_rows this w =
     (let (lazyRows, w1) = alloc_rows this 0 (drop 1 (cells (sheet w))) w
      in RowArray_constructor w1 lazyRows)"

definition Table_all :: "ActiveTable \<Rightarrow> world \<Rightarrow> nat \<times> world" where
  "Table_all this w = Table_rows this w"

text \<open>
  \<^verbatim>\<open>find\<close>. The callback of \<^verbatim>\<open>filter\<close> reads \<^verbatim>\<open>this.attributes[0].name\<close>, which raises
  when there is a row to test and no column descriptor.
\<close>

definition Table_find :: "ActiveTable \<Rightarrow> world \<Rightarrow> jsval \<Rightarrow> error + (nat \<times> world)" where
  "Table_find this w ident =
     (let (all_rows, w1) = Table_rows this w
      in case attributes this of
           [] \<Rightarrow> (if arrays w1 all_rows = [] then Inl (NotFoundError ident) else Inl TypeError)
         | (column, name) # _ \<Rightarrow>
             let (rows, w2) = RowArray_constructor w1
                   (filter (\<lambda>r. strict_eq (row_get (heap w1 r) name) ident) (arrays w1 all_rows))
             in if length (arrays w2 rows) > 1 then Inl (AmbiguousKeyError ident)
                else case arrays w2 rows of
                       [] \<Rightarrow> Inl (NotFoundError ident)
                     | row # _ \<Rightarrow> Inr (row, w2))"

section \<open>Example sheets\<close>

text \<open>
  The sheet \<^verbatim>\<open>Users\<close> of the README, with the world before any read, the world
  \<open>Users_read\<close> after \<^verbatim>\<open>all()\<close> has made the row objects 0 and 1 and the array 0 that holds
  them, and the world \<open>Users_swapped\<close> in which the caller has made the array 1 of the same
  rows in the other order.
\<close>

definition Users_table :: ActiveTable where
  "Users_table = \<lparr>attributes = [(1, ''id''), (2, ''name''), (3, ''status'')]\<rparr>"

definition Users_sheet :: sheet where
  "Users_sheet =
     \<lparr>sheetName = ''Users'',
      cells = [[Str ''id'', Str ''name'', Str ''status''],
               [Str ''user1'', Str ''Alice'', Str ''active''],
               [Str ''user2'', Str ''Bob'', Str ''inactive'']],
      calls = []\<rparr>"

definition Users_world :: world where
  "Users_world =
     \<lparr>sheet = Users_sheet, heap = (\<lambda>r. Row_constructor None Users_table), nextRef = 0,
      arrays = (\<lambda>a. []), nextArr = 0\<rparr>"

definition Users_read :: world where
  "Users_read = snd (Table_all Users_table Users_world)"


text \<open>Five rows whose \<^verbatim>\<open>age\<close> is 25, 30, 35, \<^verbatim>\<open>null\<close> and the empty string.\<close>

definition ages :: "jsval list" where
  "ages = [Num (Fin 25), Num (Fin 30), Num (Fin 35), Null, Str []]"

definition ages_heap :: "nat \<Rightarrow> ActiveTableRow" where
  "ages_heap r = (Row_constructor (Some (r + 2)) \<lparr>attributes = [(1, ''age'')]\<rparr>)
                    \<lparr>props := [(''age'', array_get ages r)]\<rparr>"

text \<open>A sheet whose two columns have the same header.\<close>

definition Dup_table :: ActiveTable where
  "Dup_table = \<lparr>attributes = [(1, ''id''), (2, ''id'')]\<rparr>"

definition Dup_world :: world where
  "Dup_world =
     \<lparr>sheet = \<lparr>sheetName = ''Dup'',
                cells = [[Str ''id'', Str ''id''], [Str ''a'', Str ''b'']],
                calls = []\<rparr>,
      heap = (\<lambda>r. Row_constructor None Dup_table),
      nextRef = 0, arrays = (\<lambda>a. []), nextArr = 0\<rparr>"

text \<open>
  A sheet whose first column holds dates: its two data rows hold the same day, each cell
  being a \<^verbatim>\<open>Date\<close> object of its own, as \<^verbatim>\<open>getValues\<close> returns them.
\<close>

definition Log_table :: ActiveTable where
  "Log_table = \<lparr>attributes = [(1, ''day''), (2, ''event'')]\<rparr>"

definition Log_world :: world where
  "Log_world =
     \<lparr>sheet = \<lparr>sheetName = ''Log'',
                cells = [[Str ''day'', Str ''event''],
                         [Date 0 (Fin 1672531200000), Str ''open''],
                         [Date 1 (Fin 1672531200000), Str ''close'']],
                calls = []\<rparr>,
      heap = (\<lambda>r. Row_constructor None Log_table),
      nextRef = 0, arrays = (\<lambda>a. []), nextArr = 0\<rparr>"

text \<open>A sheet with a column named \<^verbatim>\<open>constructor\<close>, and no data row yet.\<close>

definition Teams_table :: ActiveTable where
  "Teams_table = \<lparr>attributes = [(1, ''driver''), (2, ''constructor''), (3, ''points'')]\<rparr>"

definition Teams_world :: world where
  "Teams_world =
     \<lparr>sheet = \<lparr>sheetName = ''Teams'',
                cells = [[Str ''driver'', Str ''constructor'', Str ''points'']],
                calls = []\<rparr>,
      heap = (\<lambda>r. Row_constructor None Teams_table),
      nextRef = 0, arrays = (\<lambda>a. []), nextArr = 0\<rparr>"




section \<open>Facts about the operations\<close>

subsection \<open>Rows and their fields\<close>

lemma row_get_rowNumber [simp]: "row_get (row\<lparr>rowNumber := n\<rparr>) k = row_get row k"
  by (simp add: row_get_def split: option.splits)

lemma row_assign_fields:
  "props (row_assign k v row) = obj_set k v (props row)"
  "rowNumber (row_assign k v row) = rowNumber row"
  "table (row_assign k v row) = table row"
  by (simp_all add: row_assign_def obj_set_def)

lemma foldl_row_assign_fields:
  "props (foldl (\<lambda>row (key, value). row_assign key value row) row ob) =
     foldl (\<lambda>p (key, value). obj_set key value p) (props row) ob"
  "rowNumber (foldl (\<lambda>row (key, value). row_assign key value row) row ob) = rowNumber row"
  "table (foldl (\<lambda>row (key, value). row_assign key value row) row ob) = table row"
  by (induction ob arbitrary: row) (simp_all add: row_assign_fields split_def)

subsection \<open>Deleting rows\<close>

lemma Row_delete_heap:
  "heap (Row_delete w r) = (heap w)(r := (heap w r)\<lparr>rowNumber := None\<rparr>)"
  by (simp add: Row_delete_def Table_deleteRow_def Let_def split: option.splits)

lemma Row_delete_sheet:
  "sheet (Row_delete w r) =
     (case rowNumber (heap w r) of None \<Rightarrow> sheet w | Some n \<Rightarrow> sheet_deleteRow n (sheet w))"
  by (simp add: Row_delete_def Table_deleteRow_def Let_def split: option.splits)

lemma Row_delete_arrays: "arrays (Row_delete w r) = arrays w"
  by (simp add: Row_delete_def Table_deleteRow_def Let_def split: option.splits)

lemma Row_delete_row_get: "row_get (heap (Row_delete w x) r) k = row_get (heap w r) k"
  by (simp add: Row_delete_heap)





lemma forEach_delete_arrays: "arrays (snd (forEach_delete w xs)) = arrays w"
  by (induction xs arbitrary: w) (simp_all add: Row_delete_arrays)

lemma forEach_delete_nextArr: "nextArr (snd (forEach_delete w xs)) = nextArr w"
  by (induction xs arbitrary: w)
     (simp_all add: Row_delete_def Table_deleteRow_def Let_def split: option.splits)


lemma forEach_delete_heap:
  "heap (snd (forEach_delete w xs)) r =
     (if r \<in> set (takeWhile
           (\<lambda>r. row_get (heap w r) ''delete'' = Builtin ''ActiveTableRow.prototype.delete'') xs)
      then (heap w r)\<lparr>rowNumber := None\<rparr> else heap w r)"
proof (induction xs arbitrary: w)
  case Nil
  show ?case by simp
next
  case (Cons x xs)
  have g: "(\<lambda>r. row_get (heap (Row_delete w x) r) ''delete'' = Builtin ''ActiveTableRow.prototype.delete'')
      = (\<lambda>r. row_get (heap w r) ''delete'' = Builtin ''ActiveTableRow.prototype.delete'')"
    by (simp add: Row_delete_row_get)
  show ?case
  proof (cases "row_get (heap w x) ''delete'' = Builtin ''ActiveTableRow.prototype.delete''")
    case False
    then show ?thesis by simp
  next
    case True
    then have "heap (snd (forEach_delete w (x # xs))) r =
        heap (snd (forEach_delete (Row_delete w x) xs)) r"
      by simp
    also note Cons.IH [of "Row_delete w x"]
    finally show ?thesis
      using True by (simp add: g) (simp add: Row_delete_heap)
  qed
qed




lemma RowArray_deleteAll_eq:
  "RowArray_deleteAll w a =
     forEach_delete (w\<lparr>arrays := (arrays w)(a := rev (arrays w a))\<rparr>) (rev (arrays w a))"
  by (simp add: RowArray_deleteAll_def Let_def)




subsection \<open>New arrays\<close>

lemma RowArray_constructor_simps:
  "fst (RowArray_constructor w items) = nextArr w"
  "arrays (snd (RowArray_constructor w items)) = (arrays w)(nextArr w := items)"
  "nextArr (snd (RowArray_constructor w items)) = Suc (nextArr w)"
  "heap (snd (RowArray_constructor w items)) = heap w"
  "sheet (snd (RowArray_constructor w items)) = sheet w"
  by (simp_all add: RowArray_constructor_def Let_def)

lemma new_array:
  "fst (RowArray_constructor (snd (RowArray_constructor w xs))
          (arrays (snd (RowArray_constructor w xs)) (fst (RowArray_constructor w xs)))) =
     Suc (nextArr w)"
  "arrays (snd (RowArray_constructor (snd (RowArray_constructor w xs))
          (arrays (snd (RowArray_constructor w xs)) (fst (RowArray_constructor w xs))))) =
     (arrays w)(nextArr w := xs, Suc (nextArr w) := xs)"
  "heap (snd (RowArray_constructor (snd (RowArray_constructor w xs))
          (arrays (snd (RowArray_constructor w xs)) (fst (RowArray_constructor w xs))))) = heap w"
  by (simp_all add: RowArray_constructor_simps)

lemma ActiveTableRowArray_where_eq:
  "ActiveTableRowArray_where w a ob =
     RowArray_constructor (snd (RowArray_constructor w (RowArray_where (heap w) (arrays w a) ob)))
       (arrays (snd (RowArray_constructor w (RowArray_where (heap w) (arrays w a) ob)))
               (fst (RowArray_constructor w (RowArray_where (heap w) (arrays w a) ob))))"
  by (simp add: ActiveTableRowArray_where_def split_def Let_def)

lemma ActiveTableRowArray_after_eq:
  "ActiveTableRowArray_after sn w a ob =
     RowArray_constructor (snd (RowArray_constructor w (RowArray_after sn (heap w) (arrays w a) ob)))
       (arrays (snd (RowArray_constructor w (RowArray_after sn (heap w) (arrays w a) ob)))
               (fst (RowArray_constructor w (RowArray_after sn (heap w) (arrays w a) ob))))"
  by (simp add: ActiveTableRowArray_after_def split_def Let_def)

lemma ActiveTableRowArray_before_eq:
  "ActiveTableRowArray_before sn w a ob =
     RowArray_constructor (snd (RowArray_constructor w (RowArray_before sn (heap w) (arrays w a) ob)))
       (arrays (snd (RowArray_constructor w (RowArray_before sn (heap w) (arrays w a) ob)))
               (fst (RowArray_constructor w (RowArray_before sn (heap w) (arrays w a) ob))))"
  by (simp add: ActiveTableRowArray_before_def split_def Let_def)

subsection \<open>Values and comparisons\<close>

lemma where_match_cases:
  "where_match (Date r t) (Date r' t') = (t = t' \<and> t \<noteq> NaN)"
  "\<not> (instanceof_Date x \<and> instanceof_Date y) \<Longrightarrow>
     where_match x y = (x = y \<and> x \<noteq> Num NaN \<and> \<not> instanceof_Date x)"
   apply (auto simp: where_match_def num_eq_def)
   apply (cases x; cases y; auto simp: num_eq_def)+
  done

lemma js_gt_simps:
  "js_gt sn Null (Num (Fin q)) = (q < 0)"
  "js_gt sn (Str []) (Num (Fin q)) = (q < 0)"
  "js_lt sn Null (Num (Fin q)) = (0 < q)"
  "js_lt sn (Str []) (Num (Fin q)) = (0 < q)"
  by (simp_all add: js_gt_def)

subsection \<open>The example sheets\<close>

lemma Users_all:
  "fst (Table_all Users_table Users_world) = 0"
  "sheet Users_read = Users_sheet"
  "arrays Users_read 0 = [0, 1]"
  "nextArr Users_read = 1"
  "heap Users_read 0 =
     \<lparr>props = [(''id'', Str ''user1''), (''name'', Str ''Alice''), (''status'', Str ''active'')],
      rowNumber = Some 2, table = Users_table,
      proto = Builtin ''ActiveTableRow.prototype'', own_proto = None\<rparr>"
  "heap Users_read (Suc 0) =
     \<lparr>props = [(''id'', Str ''user2''), (''name'', Str ''Bob''), (''status'', Str ''inactive'')],
      rowNumber = Some 3, table = Users_table,
      proto = Builtin ''ActiveTableRow.prototype'', own_proto = None\<rparr>"
  by (simp_all add: Users_read_def Table_all_def Table_rows_def Users_world_def Users_sheet_def
        Users_table_def lazyRow_def array_get_def Let_def RowArray_constructor_def
        Row_constructor_def row_assign_def obj_set_def)



lemma ages_heap_get:
  "row_get (ages_heap r) ''age'' = array_get ages r"
  by (simp add: ages_heap_def row_get_def Row_constructor_def)


section \<open>The claims\<close>

text \<open>
  Claim C1. \<^verbatim>\<open>before(criteria)\<close> keeps exactly the rows whose value at every criterion
  column is neither \<^verbatim>\<open>null\<close> nor the empty string and is less than the expected value;
  \<^verbatim>\<open>after(criteria)\<close> keeps exactly the rows whose value is greater than the expected
  value, with no special case for \<^verbatim>\<open>null\<close> or the empty string. So a row whose value is
  \<^verbatim>\<open>null\<close> or empty is in no \<^verbatim>\<open>before\<close> result whatever the threshold, although the
  comparison itself holds for every positive number, while \<^verbatim>\<open>after\<close> returns it whenever
  the comparison holds, which is for every negative number.
\<close>

theorem RowArray_before_after_asymmetry:
  "RowArray_before sn h this ob =
     filter (\<lambda>r. \<forall>(key, value) \<in> set ob.
               row_get (h r) key \<noteq> Null \<and> row_get (h r) key \<noteq> Str []
               \<and> js_lt sn (row_get (h r) key) value) this
   \<and> RowArray_after sn h this ob =
     filter (\<lambda>r. \<forall>(key, value) \<in> set ob. js_gt sn (row_get (h r) key) value) this
   \<and> (\<forall>r key value.
         (key, value) \<in> set ob \<and> (row_get (h r) key = Null \<or> row_get (h r) key = Str [])
         \<longrightarrow> r \<notin> set (RowArray_before sn h this ob))
   \<and> (\<forall>r key q.
         r \<in> set this \<and> (row_get (h r) key = Null \<or> row_get (h r) key = Str [])
         \<longrightarrow> (r \<in> set (RowArray_after sn h this [(key, Num (Fin q))]) \<longleftrightarrow> q < 0)
             \<and> (js_lt sn (row_get (h r) key) (Num (Fin q)) \<longleftrightarrow> 0 < q))"
proof (intro conjI allI impI)
  show "RowArray_before sn h this ob =
     filter (\<lambda>r. \<forall>(key, value) \<in> set ob.
               row_get (h r) key \<noteq> Null \<and> row_get (h r) key \<noteq> Str []
               \<and> js_lt sn (row_get (h r) key) value) this"
    by (auto simp: RowArray_before_def list_all_iff Let_def intro!: filter_cong)
  show "RowArray_after sn h this ob =
     filter (\<lambda>r. \<forall>(key, value) \<in> set ob. js_gt sn (row_get (h r) key) value) this"
    by (auto simp: RowArray_after_def list_all_iff intro!: filter_cong)
next
  fix r key "value"
  assume "(key, value) \<in> set ob \<and> (row_get (h r) key = Null \<or> row_get (h r) key = Str [])"
  then show "r \<notin> set (RowArray_before sn h this ob)"
    by (auto simp: RowArray_before_def list_all_iff Let_def)
next
  fix r key q
  assume a: "r \<in> set this \<and> (row_get (h r) key = Null \<or> row_get (h r) key = Str [])"
  then show "r \<in> set (RowArray_after sn h this [(key, Num (Fin q))]) \<longleftrightarrow> q < 0"
    by (auto simp: RowArray_after_def js_gt_simps)
  from a show "js_lt sn (row_get (h r) key) (Num (Fin q)) \<longleftrightarrow> 0 < q"
    by (auto simp: js_gt_simps)
qed

theorem RowArray_before_after_asymmetry_witness:
  "\<forall>sn. RowArray_after sn ages_heap [0, 1, 2, 3, 4] [(''age'', Num (Fin 28))] = [1, 2]
      \<and> RowArray_before sn ages_heap [0, 1, 2, 3, 4] [(''age'', Num (Fin 32))] = [0, 1]
      \<and> 3 \<in> set (RowArray_after sn ages_heap [0, 1, 2, 3, 4] [(''age'', Num (Fin (- 1)))])
      \<and> 4 \<in> set (RowArray_after sn ages_heap [0, 1, 2, 3, 4] [(''age'', Num (Fin (- 1)))])
      \<and> js_lt sn (row_get (ages_heap 3) ''age'') (Num (Fin 1))
      \<and> js_lt sn (row_get (ages_heap 4) ''age'') (Num (Fin 1))
      \<and> 3 \<notin> set (RowArray_before sn ages_heap [0, 1, 2, 3, 4] [(''age'', Num (Fin 1))])
      \<and> 4 \<notin> set (RowArray_before sn ages_heap [0, 1, 2, 3, 4] [(''age'', Num (Fin 1))])"
proof
  fix sn
  note a = RowArray_before_after_asymmetry [of sn ages_heap "[0, 1, 2, 3, 4]" "[(''age'', Num (Fin 28))]"]
  note b = RowArray_before_after_asymmetry [of sn ages_heap "[0, 1, 2, 3, 4]" "[(''age'', Num (Fin 32))]"]
  note c = RowArray_before_after_asymmetry [of sn ages_heap "[0, 1, 2, 3, 4]" "[(''age'', Num (Fin 1))]"]
  show "RowArray_after sn ages_heap [0, 1, 2, 3, 4] [(''age'', Num (Fin 28))] = [1, 2]
      \<and> RowArray_before sn ages_heap [0, 1, 2, 3, 4] [(''age'', Num (Fin 32))] = [0, 1]
      \<and> 3 \<in> set (RowArray_after sn ages_heap [0, 1, 2, 3, 4] [(''age'', Num (Fin (- 1)))])
      \<and> 4 \<in> set (RowArray_after sn ages_heap [0, 1, 2, 3, 4] [(''age'', Num (Fin (- 1)))])
      \<and> js_lt sn (row_get (ages_heap 3) ''age'') (Num (Fin 1))
      \<and> js_lt sn (row_get (ages_heap 4) ''age'') (Num (Fin 1))
      \<and> 3 \<notin> set (RowArray_before sn ages_heap [0, 1, 2, 3, 4] [(''age'', Num (Fin 1))])
      \<and> 4 \<notin> set (RowArray_before sn ages_heap [0, 1, 2, 3, 4] [(''age'', Num (Fin 1))])"
    using a b c by (simp add: ages_heap_get ages_def array_get_def js_gt_def)
qed

text \<open>
  Claim C2, as amended. After \<^verbatim>\<open>delete()\<close>, \<^verbatim>\<open>update(fields)\<close> and another \<^verbatim>\<open>delete()\<close>
  leave the sheet as it is (the fields are still merged in memory), but \<^verbatim>\<open>save()\<close> treats
  the row as a new one: it appends one row with the current fields to the sheet.
\<close>

theorem Row_mutations_after_delete:
  "sheet (Row_update (Row_delete w r) r ob) = sheet (Row_delete w r)
   \<and> sheet (Row_delete (Row_delete w r) r) = sheet (Row_delete w r)
   \<and> props (heap (Row_update (Row_delete w r) r ob) r) =
       foldl (\<lambda>p (key, value). obj_set key value p) (props (heap w r)) ob
   \<and> sheet (Row_save (Row_delete w r) r) =
       sheet_appendRow
         (map (\<lambda>(column, name). nullish_coalesce (row_get (heap w r) name) (Str []))
              (attributes (table (heap w r))))
         (sheet (Row_delete w r))
   \<and> calls (sheet (Row_save (Row_delete w r) r)) =
       calls (sheet (Row_delete w r)) @
       [AppendRow (map (\<lambda>(column, name). nullish_coalesce (row_get (heap w r) name) (Str []))
                       (attributes (table (heap w r))))]"
  by (simp add: Row_delete_heap Row_delete_sheet Row_update_def Row_save_def Let_def
        Table_create_def sheet_appendRow_def foldl_row_assign_fields)

theorem Row_mutations_after_delete_witness:
  "sheet (Row_update (Row_delete Users_read 0) 0 [(''name'', Str ''Carol'')]) =
     sheet (Row_delete Users_read 0)
   \<and> row_get (heap (Row_update (Row_delete Users_read 0) 0 [(''name'', Str ''Carol'')]) 0) ''name'' =
       Str ''Carol''
   \<and> calls (sheet (Row_delete (Row_delete Users_read 0) 0)) = [DeleteRow 2]"
proof -
  note t = Row_mutations_after_delete [of Users_read 0 "[(''name'', Str ''Carol'')]"]
  have a: "sheet (Row_update (Row_delete Users_read 0) 0 [(''name'', Str ''Carol'')]) =
      sheet (Row_delete Users_read 0)"
    by (rule t [THEN conjunct1])
  have "props (heap (Row_update (Row_delete Users_read 0) 0 [(''name'', Str ''Carol'')]) 0) =
      [(''id'', Str ''user1''), (''name'', Str ''Carol''), (''status'', Str ''active'')]"
    using t [THEN conjunct2, THEN conjunct2, THEN conjunct1]
    by (simp add: Users_all obj_set_def)
  then have b: "row_get (heap (Row_update (Row_delete Users_read 0) 0 [(''name'', Str ''Carol'')]) 0)
      ''name'' = Str ''Carol''"
    by (simp add: row_get_def)
  have "sheet (Row_delete (Row_delete Users_read 0) 0) = sheet (Row_delete Users_read 0)"
    by (rule t [THEN conjunct2, THEN conjunct1])
  then have c: "calls (sheet (Row_delete (Row_delete Users_read 0) 0)) = [DeleteRow 2]"
    by (simp add: Row_delete_sheet Users_all Users_sheet_def sheet_deleteRow_def)
  from a b c show ?thesis by simp
qed

text \<open>
  The claim as it was stated fails for \<^verbatim>\<open>save()\<close>: on the first row of \<^verbatim>\<open>Users\<close>,
  \<^verbatim>\<open>delete()\<close> followed by \<^verbatim>\<open>save()\<close> sends an \<^verbatim>\<open>appendRow\<close> to the sheet.
\<close>

theorem Row_save_after_delete_counterexample:
  "\<not> Row_isPersisted (Row_delete Users_read 0) 0
   \<and> calls (sheet (Row_delete Users_read 0)) = [DeleteRow 2]
   \<and> calls (sheet (Row_save (Row_delete Users_read 0) 0)) =
       [DeleteRow 2, AppendRow [Str ''user1'', Str ''Alice'', Str ''active'']]
   \<and> sheet (Row_save (Row_delete Users_read 0) 0) \<noteq> sheet (Row_delete Users_read 0)"
  by (simp add: Row_delete_sheet Row_delete_heap Row_save_def Table_create_def Users_all
        Users_sheet_def Users_table_def sheet_deleteRow_def sheet_appendRow_def
        row_get_def nullish_coalesce_def Let_def Row_isPersisted_def)




text \<open>
  Claim C4 holds of the documentation and not of the code. The README and the comment in
  the constructor promise an error when the first column of the data rows holds a value
  twice. The constructor counts the values with a \<^verbatim>\<open>Set\<close>, which tells objects apart by
  identity: two cells that hold the same date are two \<^verbatim>\<open>Date\<close> objects, so the \<^verbatim>\<open>Set\<close> has
  as many members as there are rows and the table is built, with \<^verbatim>\<open>checkUnique\<close> and by
  default, although \<^verbatim>\<open>where\<close> of the same library takes the two cells for one value.
\<close>

theorem Table_constructor_same_day_twice:
  "\<forall>ts. array_get (cells (sheet Log_world) ! 1) 0 = Date 0 (Fin 1672531200000)
     \<and> array_get (cells (sheet Log_world) ! 2) 0 = Date 1 (Fin 1672531200000)
     \<and> getTime (Date 0 (Fin 1672531200000)) = getTime (Date 1 (Fin 1672531200000))
     \<and> where_match (Date 0 (Fin 1672531200000)) (Date 1 (Fin 1672531200000))
     \<and> Set_size (map (\<lambda>row. array_get row 0) (drop 1 (cells (sheet Log_world)))) = 2
     \<and> Table_constructor ts Log_world True = Inr Log_table
     \<and> bySheetName ts Log_world ''Log'' None = Inr Log_table"
  by (simp add: Log_world_def Log_table_def array_get_def where_match_def num_eq_def
        Set_size_def Set_add_def Table_constructor_def bySheetName_def ToPropertyKey_def
        enumerate_eq_zip)

text \<open>
  Claim C5 holds of the documentation and not of the code. \<^verbatim>\<open>find(id)\<close> is documented to
  find a row by the value of its first column, and reads the field of the row under the
  name of the first column. When a later column has the same header, \<^verbatim>\<open>#rows\<close> has
  overwritten that field with the cell of the later column: in the sheet with the headers
  \<^verbatim>\<open>id, id\<close> and the row \<^verbatim>\<open>a, b\<close>, \<^verbatim>\<open>find('a')\<close> fails with the not-found error and
  \<^verbatim>\<open>find('b')\<close> returns the row.
\<close>

theorem Table_find_duplicate_header:
  "\<forall>ts cu. Table_constructor ts Dup_world cu = Inr Dup_table
     \<and> array_get (cells (sheet Dup_world) ! 1) 0 = Str ''a''
     \<and> strict_eq (array_get (cells (sheet Dup_world) ! 1) 0) (Str ''a'')
     \<and> Table_find Dup_table Dup_world (Str ''a'') = Inl (NotFoundError (Str ''a''))
     \<and> map_sum id fst (Table_find Dup_table Dup_world (Str ''b'')) = Inr 0"
  by (simp add: Dup_world_def Dup_table_def array_get_def Table_find_def Table_rows_def
        lazyRow_def row_get_def Let_def Table_constructor_def ToPropertyKey_def
        Set_size_def Set_add_def enumerate_eq_zip RowArray_constructor_def
        Row_constructor_def row_assign_def obj_set_def)

text \<open>
  Claim C6 holds of the tests and not of the code. \<^verbatim>\<open>create(fields)\<close> means to write the
  empty string for a column that \<^verbatim>\<open>fields\<close> does not have, but \<^verbatim>\<open>fields[name]\<close> also finds
  what \<^verbatim>\<open>fields\<close> inherits: for the column \<^verbatim>\<open>constructor\<close> of the sheet \<^verbatim>\<open>Teams\<close>, which
  \<^verbatim>\<open>{driver: 'Senna'}\<close> does not have, the row that is appended holds the function
  \<^verbatim>\<open>Object\<close>, not the empty string.
\<close>

theorem Table_create_inherited_member:
  "\<forall>ts cu. Table_constructor ts Teams_world cu = Inr Teams_table
     \<and> map_of [(''driver'', Str ''Senna'')] ''constructor'' = None
     \<and> calls (sheet (Table_create Teams_table (obj_get [(''driver'', Str ''Senna'')]) Teams_world)) =
         [AppendRow [Str ''Senna'', Builtin ''Object.prototype.constructor'', Str []]]"
  by (simp add: Teams_world_def Teams_table_def Table_create_def obj_get_def
        Object_prototype_get_def Object_prototype_names_def nullish_coalesce_def
        sheet_appendRow_def Table_constructor_def ToPropertyKey_def Set_size_def
        enumerate_eq_zip Let_def)

text \<open>
  Claim C7. \<^verbatim>\<open>where(criteria)\<close> is the receiver filtered by the rows that match every
  criterion, so it keeps the order of the rows, and empty criteria keep every row. Two
  \<^verbatim>\<open>Date\<close> values match when their time values are equal (and valid), whatever objects
  they are; in every other case a value matches an expected value when they are the same
  primitive value (\<^verbatim>\<open>NaN\<close>, as always, equals nothing).
\<close>

theorem RowArray_where_spec:
  "RowArray_where h this ob =
     filter (\<lambda>r. \<forall>(key, value) \<in> set ob. where_match value (row_get (h r) key)) this
   \<and> subseq (RowArray_where h this ob) this
   \<and> RowArray_where h this [] = this
   \<and> (\<forall>r t r' t'. where_match (Date r t) (Date r' t') = (t = t' \<and> t \<noteq> NaN))
   \<and> (\<forall>x y. \<not> (instanceof_Date x \<and> instanceof_Date y) \<longrightarrow>
         where_match x y = (x = y \<and> x \<noteq> Num NaN \<and> \<not> instanceof_Date x))"
  by (auto simp: RowArray_where_def list_all_iff where_match_cases intro!: filter_cong)

theorem RowArray_where_spec_witness:
  "RowArray_where (heap Users_read) [0, 1] [(''status'', Str ''active'')] = [0]
   \<and> RowArray_where (heap Users_read) [0, 1] [] = [0, 1]
   \<and> where_match (Date 7 (Fin 1000)) (Date 8 (Fin 1000))
   \<and> \<not> strict_eq (Date 7 (Fin 1000)) (Date 8 (Fin 1000))
   \<and> \<not> (instanceof_Date (Str ''active'') \<and> instanceof_Date (Str ''active''))
   \<and> where_match (Str ''active'') (Str ''active'')"
  using RowArray_where_spec [of "heap Users_read" "[0, 1]" "[(''status'', Str ''active'')]"]
    RowArray_where_spec [of "heap Users_read" "[0, 1]" "[]"]
  by (simp add: Users_all row_get_def obj_get_def)

text \<open>
  Claim C8. \<^verbatim>\<open>delete()\<close> always leaves the position handle \<^verbatim>\<open>null\<close>. On a persisted row
  it sends exactly one \<^verbatim>\<open>deleteRow\<close> to the sheet, at the position of the row, and the row is
  no longer persisted afterwards. A second \<^verbatim>\<open>delete()\<close> changes nothing: neither the sheet
  nor any row object.
\<close>

theorem Row_delete_once_then_noop:
  "rowNumber (heap (Row_delete w r) r) = None
   \<and> (rowNumber (heap w r) = Some n \<longrightarrow>
        calls (sheet (Row_delete w r)) = calls (sheet w) @ [DeleteRow n]
        \<and> cells (sheet (Row_delete w r)) = delete_at n (cells (sheet w))
        \<and> Row_isPersisted w r \<and> \<not> Row_isPersisted (Row_delete w r) r)
   \<and> sheet (Row_delete (Row_delete w r) r) = sheet (Row_delete w r)
   \<and> Row_delete (Row_delete w r) r = Row_delete w r"
  apply (intro conjI impI)
  apply (simp_all add: Row_delete_heap Row_delete_sheet Row_isPersisted_def sheet_deleteRow_def)
  apply (simp add: Row_delete_def Table_deleteRow_def Let_def split: option.splits)
  done

theorem Row_delete_once_then_noop_witness:
  "rowNumber (heap Users_read 0) = Some 2
   \<and> calls (sheet (Row_delete Users_read 0)) = [DeleteRow 2]
   \<and> cells (sheet (Row_delete Users_read 0)) =
       [[Str ''id'', Str ''name'', Str ''status''], [Str ''user2'', Str ''Bob'', Str ''inactive'']]
   \<and> Row_isPersisted Users_read 0
   \<and> \<not> Row_isPersisted (Row_delete Users_read 0) 0
   \<and> calls (sheet (Row_delete (Row_delete Users_read 0) 0)) = [DeleteRow 2]"
  using Row_delete_once_then_noop [of Users_read 0 2]
  by (simp add: Users_all Users_sheet_def delete_at_def)

text \<open>
  Claim C9 holds of the specification and not of the code. \<^verbatim>\<open>all()\<close> returns one row for
  each data row, numbered from 2, but the fields of a row are not the cells of the data
  row keyed by the column names when two columns have the same header: \<^verbatim>\<open>#rows\<close> assigns
  the fields column by column, and the later column overwrites the earlier one. In the
  sheet with the headers \<^verbatim>\<open>id, id\<close> and the row \<^verbatim>\<open>a, b\<close> the row object has the one field
  \<^verbatim>\<open>id\<close> with the value \<^verbatim>\<open>b\<close>, and the cell \<^verbatim>\<open>a\<close> is under no name.
\<close>

theorem Table_all_duplicate_header:
  "\<forall>ts cu. Table_constructor ts Dup_world cu = Inr Dup_table
     \<and> cells (sheet Dup_world) = [[Str ''id'', Str ''id''], [Str ''a'', Str ''b'']]
     \<and> arrays (snd (Table_all Dup_table Dup_world)) (fst (Table_all Dup_table Dup_world)) = [0]
     \<and> rowNumber (heap (snd (Table_all Dup_table Dup_world)) 0) = Some 2
     \<and> props (heap (snd (Table_all Dup_table Dup_world)) 0) = [(''id'', Str ''b'')]
     \<and> row_get (heap (snd (Table_all Dup_table Dup_world)) 0) ''id'' = Str ''b''"
  by (simp add: Dup_world_def Dup_table_def Table_all_def Table_rows_def
        lazyRow_def row_get_def Let_def Table_constructor_def ToPropertyKey_def
        Set_size_def Set_add_def enumerate_eq_zip RowArray_constructor_def
        Row_constructor_def row_assign_def obj_set_def array_get_def)

text \<open>
  Claim C10. \<^verbatim>\<open>deleteAll()\<close> reverses the receiver in place: whatever the deletions do,
  the array of the receiver afterwards holds the same row objects in the reverse of their
  order before the call, every other array is as it was, and the row objects keep their
  fields. \<^verbatim>\<open>where\<close>, \<^verbatim>\<open>after\<close> and \<^verbatim>\<open>before\<close> return a new array, at a reference that
  did not exist before, which holds the selected rows; every array that existed, the
  receiver among them, and every row object are as they were.
\<close>

theorem RowArray_deleteAll_reverses_receiver:
  "arrays (snd (RowArray_deleteAll w a)) a = rev (arrays w a)
   \<and> (\<forall>b. b \<noteq> a \<longrightarrow> arrays (snd (RowArray_deleteAll w a)) b = arrays w b)
   \<and> (\<forall>r. props (heap (snd (RowArray_deleteAll w a)) r) = props (heap w r)
          \<and> proto (heap (snd (RowArray_deleteAll w a)) r) = proto (heap w r)
          \<and> table (heap (snd (RowArray_deleteAll w a)) r) = table (heap w r))
   \<and> nextArr w \<le> fst (ActiveTableRowArray_where w a ob)
   \<and> (\<forall>b<nextArr w. arrays (snd (ActiveTableRowArray_where w a ob)) b = arrays w b)
   \<and> arrays (snd (ActiveTableRowArray_where w a ob)) (fst (ActiveTableRowArray_where w a ob)) =
       RowArray_where (heap w) (arrays w a) ob
   \<and> heap (snd (ActiveTableRowArray_where w a ob)) = heap w
   \<and> nextArr w \<le> fst (ActiveTableRowArray_after sn w a ob)
   \<and> (\<forall>b<nextArr w. arrays (snd (ActiveTableRowArray_after sn w a ob)) b = arrays w b)
   \<and> arrays (snd (ActiveTableRowArray_after sn w a ob)) (fst (ActiveTableRowArray_after sn w a ob)) =
       RowArray_after sn (heap w) (arrays w a) ob
   \<and> heap (snd (ActiveTableRowArray_after sn w a ob)) = heap w
   \<and> nextArr w \<le> fst (ActiveTableRowArray_before sn w a ob)
   \<and> (\<forall>b<nextArr w. arrays (snd (ActiveTableRowArray_before sn w a ob)) b = arrays w b)
   \<and> arrays (snd (ActiveTableRowArray_before sn w a ob)) (fst (ActiveTableRowArray_before sn w a ob)) =
       RowArray_before sn (heap w) (arrays w a) ob
   \<and> heap (snd (ActiveTableRowArray_before sn w a ob)) = heap w"
proof -
  have d: "arrays (snd (RowArray_deleteAll w a)) = (arrays w)(a := rev (arrays w a))"
    by (simp add: RowArray_deleteAll_eq forEach_delete_arrays)
  have h: "heap (snd (RowArray_deleteAll w a)) r = heap w r
      \<or> heap (snd (RowArray_deleteAll w a)) r = (heap w r)\<lparr>rowNumber := None\<rparr>" for r
    by (simp add: RowArray_deleteAll_eq forEach_delete_heap)
  have f: "props (heap (snd (RowArray_deleteAll w a)) r) = props (heap w r)
          \<and> proto (heap (snd (RowArray_deleteAll w a)) r) = proto (heap w r)
          \<and> table (heap (snd (RowArray_deleteAll w a)) r) = table (heap w r)" for r
    using h [of r] by auto
  show ?thesis
    apply (intro conjI allI impI)
    apply (simp_all add: d f)
    apply (simp_all add: ActiveTableRowArray_where_eq ActiveTableRowArray_after_eq
        ActiveTableRowArray_before_eq new_array)
    done
qed

theorem RowArray_deleteAll_reverses_receiver_witness:
  "arrays Users_read 0 = [0, 1]
   \<and> arrays (snd (RowArray_deleteAll Users_read 0)) 0 = [1, 0]
   \<and> 0 < nextArr Users_read
   \<and> fst (ActiveTableRowArray_where Users_read 0 [(''status'', Str ''inactive'')]) = 2
   \<and> arrays (snd (ActiveTableRowArray_where Users_read 0 [(''status'', Str ''inactive'')])) 2 = [1]
   \<and> arrays (snd (ActiveTableRowArray_where Users_read 0 [(''status'', Str ''inactive'')])) 0 = [0, 1]"
proof -
  note t = RowArray_deleteAll_reverses_receiver
      [of Users_read 0 "[(''status'', Str ''inactive'')]" "\<lambda>s. NaN"]
  have a: "arrays Users_read 0 = [0, 1]" "0 < nextArr Users_read"
    by (simp_all add: Users_all)
  have b: "arrays (snd (RowArray_deleteAll Users_read 0)) 0 = [1, 0]"
    using t [THEN conjunct1] by (simp add: a)
  have c: "fst (ActiveTableRowArray_where Users_read 0 [(''status'', Str ''inactive'')]) = 2"
    by (simp add: ActiveTableRowArray_where_eq new_array Users_all)
  have "arrays (snd (ActiveTableRowArray_where Users_read 0 [(''status'', Str ''inactive'')]))
          (fst (ActiveTableRowArray_where Users_read 0 [(''status'', Str ''inactive'')])) =
        RowArray_where (heap Users_read) (arrays Users_read 0) [(''status'', Str ''inactive'')]"
    using t by blast
  then have d: "arrays (snd (ActiveTableRowArray_where Users_read 0 [(''status'', Str ''inactive'')])) 2 = [1]"
    by (simp add: c a RowArray_where_def where_match_def Users_all row_get_def)
  have "\<forall>b<nextArr Users_read.
      arrays (snd (ActiveTableRowArray_where Users_read 0 [(''status'', Str ''inactive'')])) b =
      arrays Users_read b"
    using t by blast
  then have e: "arrays (snd (ActiveTableRowArray_where Users_read 0 [(''status'', Str ''inactive'')])) 0 = [0, 1]"
    using a by simp
  from a b c d e show ?thesis by simp
qed

end
